theory Spec2Isabelle
  imports Complex_Main
begin

section \<open>Python values used by the IoT controller\<close>

text \<open>
  A Python \<open>float\<close> is a finite number, an infinity or NaN. Only comparisons and
  assignments of floats are modelled exactly; a finite float is read as the real number it
  denotes. A parameter annotated \<open>float\<close> also accepts an \<open>int\<close>, which Python
  compares with a float by its exact mathematical value.
\<close>

datatype pyfloat = NaN | NegInf | Fin real | PosInf

datatype pynum = PInt int | PFloat pyfloat

text \<open>The values an action dictionary or a caller can hand over: \<open>None\<close>, a string or a number.\<close>

datatype pyval = VNone | VStr string | VNum pynum

text \<open>The text of an exception: a literal, or a literal followed by a formatted integer.\<close>

datatype err_text = Text string | TextInt string int

datatype exn =
    ValueError err_text
  | TypeError err_text
  | KeyError err_text
  | NameError err_text
  | OverflowError err_text
  | OSError err_text
  | DriverError err_text
  | QueueEmpty

text \<open>A log record: the level and the pieces of the formatted message.\<close>

datatype level = INFO | WARNING | ERROR

datatype frag = S string | I int | V pyval | E exn

type_synonym log_entry = "level \<times> frag list"

text \<open>
  The result of running a block of statements on a state: the exception that left the
  block (if any), the state at that moment, and the records logged on the way.
\<close>

datatype 's outcome = Outcome (raised: "exn option") (post: 's) (logged: "log_entry list")

text \<open>Statements in sequence: the second runs only when the first raised nothing.\<close>

definition then_do :: "'s outcome \<Rightarrow> ('s \<Rightarrow> 's outcome) \<Rightarrow> 's outcome" where
  "then_do r f =
     (case raised r of
        Some e \<Rightarrow> r
      | None \<Rightarrow> (let r2 = f (post r) in Outcome (raised r2) (post r2) (logged r @ logged r2)))"

text \<open>\<open>try: ... except Exception as e: ...\<close>: the handler runs on the state the block left.\<close>

definition try_except :: "'s outcome \<Rightarrow> (exn \<Rightarrow> 's \<Rightarrow> 's outcome) \<Rightarrow> 's outcome" where
  "try_except r handler =
     (case raised r of
        None \<Rightarrow> r
      | Some e \<Rightarrow> (let h = handler e (post r) in Outcome (raised h) (post h) (logged r @ logged h)))"

text \<open>A handler that only writes log records, and a statement that only logs.\<close>

definition log_only :: "(exn \<Rightarrow> log_entry list) \<Rightarrow> exn \<Rightarrow> 's \<Rightarrow> 's outcome" where
  "log_only f e s = Outcome None s (f e)"

definition say :: "log_entry list \<Rightarrow> 's \<Rightarrow> 's outcome" where
  "say entries s = Outcome None s entries"

fun fle :: "pyfloat \<Rightarrow> pyfloat \<Rightarrow> bool" where
  "fle NaN _ = False"
| "fle _ NaN = False"
| "fle NegInf _ = True"
| "fle _ PosInf = True"
| "fle (Fin x) (Fin y) = (x \<le> y)"
| "fle PosInf _ = False"
| "fle (Fin x) NegInf = False"

fun num_val :: "pynum \<Rightarrow> pyfloat" where
  "num_val (PInt i) = Fin (of_int i)"
| "num_val (PFloat f) = f"

definition num_le :: "pynum \<Rightarrow> pynum \<Rightarrow> bool" where
  "num_le a b = fle (num_val a) (num_val b)"

text \<open>\<open>a <= v\<close> and \<open>v >= t\<close> where \<open>a\<close>, \<open>t\<close> are numbers and \<open>v\<close> is any value:
  comparing a number with \<open>None\<close> or a string raises \<open>TypeError\<close>.\<close>

fun le_nv :: "pynum \<Rightarrow> pyval \<Rightarrow> exn + bool" where
  "le_nv a (VNum b) = Inr (num_le a b)"
| "le_nv a _ = Inl (TypeError (Text ''<= not supported between these instances''))"

fun le_vn :: "pyval \<Rightarrow> pynum \<Rightarrow> exn + bool" where
  "le_vn (VNum a) b = Inr (num_le a b)"
| "le_vn _ b = Inl (TypeError (Text ''<= not supported between these instances''))"

fun ge_vn :: "pyval \<Rightarrow> pynum \<Rightarrow> exn + bool" where
  "ge_vn (VNum a) t = Inr (num_le t a)"
| "ge_vn _ t = Inl (TypeError (Text ''>= not supported between these instances''))"

text \<open>
  A dictionary with string keys, as the list of its items; a key occurs once.
  \<open>d[k]\<close> raises \<open>KeyError\<close> on a missing key, \<open>d.get(k, default)\<close> does not.
\<close>

definition dict_index :: "(string \<times> 'v) list \<Rightarrow> string \<Rightarrow> exn + 'v" where
  "dict_index d k = (case map_of d k of None \<Rightarrow> Inl (KeyError (Text k)) | Some v \<Rightarrow> Inr v)"

definition dict_get :: "(string \<times> 'v) list \<Rightarrow> string \<Rightarrow> 'v \<Rightarrow> 'v" where
  "dict_get d k dflt = (case map_of d k of None \<Rightarrow> dflt | Some v \<Rightarrow> v)"

text \<open>Truth value of an optional argument: \<open>None\<close>, zero and the empty string are false.\<close>

fun truthy :: "pyval \<Rightarrow> bool" where
  "truthy VNone = False"
| "truthy (VStr s) = (s \<noteq> [])"
| "truthy (VNum (PInt i)) = (i \<noteq> 0)"
| "truthy (VNum (PFloat (Fin x))) = (x \<noteq> 0)"
| "truthy (VNum (PFloat _)) = True"

section \<open>RelayController\<close>

text \<open>
  The GPIO module is an external driver; each of its calls either succeeds or raises.
  \<open>True\<close> is the level HIGH, \<open>False\<close> the level LOW.
\<close>

record gpio_module =
  gpio_setmode :: "exn option"
  gpio_setup :: "int \<Rightarrow> exn option"
  gpio_output :: "int \<Rightarrow> bool \<Rightarrow> exn option"
  gpio_cleanup :: "exn option"

text \<open>\<open>timers\<close> lists the one-shot timers started so far, as (duration, pin).\<close>

record RelayController =
  relay_pins :: "int list"
  gpio :: "gpio_module option"
  relay_states :: "int \<rightharpoonup> bool"
  timers :: "(pyval \<times> int) list"

text \<open>\<open>if self.gpio: self.gpio.output(pin, lvl)\<close>\<close>

definition gpio_write :: "RelayController \<Rightarrow> int \<Rightarrow> bool \<Rightarrow> exn option" where
  "gpio_write rc pin lvl = (case gpio rc of None \<Rightarrow> None | Some g \<Rightarrow> gpio_output g pin lvl)"

fun first_exn :: "exn option list \<Rightarrow> exn option" where
  "first_exn [] = None"
| "first_exn (None # rs) = first_exn rs"
| "first_exn (Some e # rs) = Some e"

definition setup_gpio :: "RelayController \<Rightarrow> RelayController outcome" where
  "setup_gpio rc =
     try_except
       (case gpio rc of
          None \<Rightarrow> Outcome None rc []
        | Some g \<Rightarrow>
            (case first_exn (gpio_setmode g #
                    concat (map (\<lambda>pin. [gpio_setup g pin, gpio_output g pin True]) (relay_pins rc))) of
               Some e \<Rightarrow> Outcome (Some e) rc []
             | None \<Rightarrow> Outcome None rc [(INFO, [S ''GPIO setup completed for relays''])]))
       (log_only (\<lambda>e. [(ERROR, [S ''GPIO setup failed: '', E e])]))"

definition RelayController_init :: "int list \<Rightarrow> gpio_module option \<Rightarrow> RelayController outcome" where
  "RelayController_init pins g =
     setup_gpio \<lparr>relay_pins = pins, gpio = g,
                 relay_states = fold (\<lambda>pin m. m(pin \<mapsto> False)) pins Map.empty,
                 timers = []\<rparr>"

definition activate_relay_try :: "int \<Rightarrow> pyval \<Rightarrow> RelayController \<Rightarrow> RelayController outcome" where
  "activate_relay_try pin duration rc =
     (if pin \<notin> set (relay_pins rc)
      then Outcome (Some (ValueError (TextInt ''Invalid relay pin: '' pin))) rc []
      else case gpio_write rc pin False of
             Some e \<Rightarrow> Outcome (Some e) rc []
           | None \<Rightarrow>
               let rc1 = rc\<lparr>relay_states := (relay_states rc)(pin \<mapsto> True)\<rparr>;
                   rc2 = (if truthy duration then rc1\<lparr>timers := timers rc1 @ [(duration, pin)]\<rparr> else rc1)
               in Outcome None rc2 [(INFO, [S ''Relay '', I pin, S '' activated''])])"

definition activate_relay :: "int \<Rightarrow> pyval \<Rightarrow> RelayController \<Rightarrow> RelayController outcome" where
  "activate_relay pin duration rc =
     try_except (activate_relay_try pin duration rc)
       (log_only (\<lambda>e. [(ERROR, [S ''Error activating relay '', I pin, S '': '', E e])]))"

definition deactivate_relay_try :: "int \<Rightarrow> RelayController \<Rightarrow> RelayController outcome" where
  "deactivate_relay_try pin rc =
     (if pin \<notin> set (relay_pins rc)
      then Outcome (Some (ValueError (TextInt ''Invalid relay pin: '' pin))) rc []
      else case gpio_write rc pin True of
             Some e \<Rightarrow> Outcome (Some e) rc []
           | None \<Rightarrow>
               Outcome None (rc\<lparr>relay_states := (relay_states rc)(pin \<mapsto> False)\<rparr>)
                 [(INFO, [S ''Relay '', I pin, S '' deactivated''])])"

definition deactivate_relay :: "int \<Rightarrow> RelayController \<Rightarrow> RelayController outcome" where
  "deactivate_relay pin rc =
     try_except (deactivate_relay_try pin rc)
       (log_only (\<lambda>e. [(ERROR, [S ''Error deactivating relay '', I pin, S '': '', E e])]))"

text \<open>\<open>self.relay_states.get(pin, False)\<close>: a lookup with a default never raises.\<close>

definition get_relay_state :: "RelayController \<Rightarrow> int \<Rightarrow> bool" where
  "get_relay_state rc pin = (case relay_states rc pin of None \<Rightarrow> False | Some b \<Rightarrow> b)"

definition cleanup :: "RelayController \<Rightarrow> RelayController outcome" where
  "cleanup rc =
     try_except
       (case gpio rc of
          None \<Rightarrow> Outcome None rc [(INFO, [S ''GPIO cleanup completed''])]
        | Some g \<Rightarrow>
            (case first_exn (map (\<lambda>pin. gpio_output g pin True) (relay_pins rc) @ [gpio_cleanup g]) of
               Some e \<Rightarrow> Outcome (Some e) rc []
             | None \<Rightarrow> Outcome None rc [(INFO, [S ''GPIO cleanup completed''])]))
       (log_only (\<lambda>e. [(ERROR, [S ''GPIO cleanup error: '', E e])]))"

text \<open>
  The controllers a program can hold: the one the constructor builds, and what the
  methods (and a timer firing, which calls \<open>deactivate_relay\<close>) make of it.
\<close>

inductive reachable_relay :: "RelayController \<Rightarrow> bool" where
  rc_init: "reachable_relay (post (RelayController_init pins g))"
| rc_activate: "reachable_relay rc \<Longrightarrow> reachable_relay (post (activate_relay pin duration rc))"
| rc_deactivate: "reachable_relay rc \<Longrightarrow> reachable_relay (post (deactivate_relay pin rc))"
| rc_cleanup: "reachable_relay rc \<Longrightarrow> reachable_relay (post (cleanup rc))"



section \<open>MotorController\<close>

record MotorController =
  motor_pins :: "(string \<times> int list) list"
  motor_type :: string
  current_position :: pyval
  is_moving :: bool

definition MotorController_init :: "(string \<times> int list) list \<Rightarrow> string \<Rightarrow> MotorController" where
  "MotorController_init pins ty =
     \<lparr>motor_pins = pins, motor_type = ty, current_position = VNum (PInt 0), is_moving = False\<rparr>"

text \<open>
  \<open>time.sleep(secs)\<close> of the standard library changes no state of the program. It first
  checks its argument: NaN raises \<open>ValueError\<close>, a negative delay raises
  \<open>ValueError\<close>, and a delay whose nanoseconds do not fit 64 signed bits raises
  \<open>OverflowError\<close>. \<open>sleep_argument\<close> holds the part of that check that is the same
  everywhere: \<open>10^10\<close> seconds are \<open>10^19\<close> nanoseconds, beyond \<open>2^63\<close>, and
  \<open>9 * 10^9\<close> seconds are within it. A delay it lets pass is handed to the platform,
  which sleeps and returns or fails (near the limit of its clock, for one); what the
  platform does at the \<open>k\<close>-th call of a move is the parameter \<open>os\<close>.
\<close>

definition sleep_argument :: "pynum \<Rightarrow> exn option" where
  "sleep_argument secs =
     (case num_val secs of
        NaN \<Rightarrow> Some (ValueError (Text ''Invalid value NaN (not a number)''))
      | NegInf \<Rightarrow> Some (OverflowError (Text ''timestamp too large to convert to C _PyTime_t''))
      | PosInf \<Rightarrow> Some (OverflowError (Text ''timestamp too large to convert to C _PyTime_t''))
      | Fin x \<Rightarrow>
          if x \<le> - (10 ^ 10) \<or> 10 ^ 10 \<le> x
          then Some (OverflowError (Text ''timestamp too large to convert to C _PyTime_t''))
          else if - (9 * 10 ^ 9) \<le> x \<and> x < 0
          then Some (ValueError (Text ''sleep length must be non-negative''))
          else None)"

definition time_sleep :: "(nat \<Rightarrow> pynum \<Rightarrow> exn option) \<Rightarrow> nat \<Rightarrow> pynum \<Rightarrow> exn option" where
  "time_sleep os k secs =
     (case sleep_argument secs of Some e \<Rightarrow> Some e | None \<Rightarrow> os k secs)"

text \<open>
  \<open>self.current_position += direction\<close> with an \<open>int\<close> direction. Adding to an
  \<open>int\<close> is exact. Adding to a \<open>float\<close> rounds (and can raise), which is not
  modelled: that addition is the parameter \<open>fadd\<close>. \<open>None\<close> and strings raise.
\<close>

definition add_direction ::
  "(pyfloat \<Rightarrow> int \<Rightarrow> exn + pyfloat) \<Rightarrow> pyval \<Rightarrow> int \<Rightarrow> exn + pyval" where
  "add_direction fadd pos d =
     (case pos of
        VNum (PInt p) \<Rightarrow> Inr (VNum (PInt (p + d)))
      | VNum (PFloat f) \<Rightarrow> (case fadd f d of Inl e \<Rightarrow> Inl e | Inr g \<Rightarrow> Inr (VNum (PFloat g)))
      | _ \<Rightarrow> Inl (TypeError (Text ''unsupported operand type(s) for +='')))"

text \<open>
  A move of the stepper blocks its caller while other threads can read the controller.
  The state of a running move is the controller together with the states it showed at the
  points where the move waited (its first log record and every \<open>time.sleep\<close>), oldest
  first.
\<close>

type_synonym stepper_run = "MotorController \<times> MotorController list"

text \<open>\<open>for step in range(steps): time.sleep(speed); self.current_position += direction\<close>,
  by the number of iterations still to run and the value of \<open>step\<close>.\<close>

fun stepper_loop ::
  "(nat \<Rightarrow> pynum \<Rightarrow> exn option) \<Rightarrow> (pyfloat \<Rightarrow> int \<Rightarrow> exn + pyfloat) \<Rightarrow> nat \<Rightarrow> nat \<Rightarrow> int
     \<Rightarrow> pynum \<Rightarrow> stepper_run \<Rightarrow> stepper_run outcome" where
  "stepper_loop os fadd 0 step direction speed run = Outcome None run []"
| "stepper_loop os fadd (Suc n) step direction speed (m, seen) =
     (case time_sleep os step speed of
        Some e \<Rightarrow> Outcome (Some e) (m, seen @ [m]) []
      | None \<Rightarrow>
          (case add_direction fadd (current_position m) direction of
             Inl e \<Rightarrow> Outcome (Some e) (m, seen @ [m]) []
           | Inr p \<Rightarrow>
               stepper_loop os fadd n (Suc step) direction speed
                 (m\<lparr>current_position := p\<rparr>, seen @ [m])))"

definition move_stepper_try ::
  "(nat \<Rightarrow> pynum \<Rightarrow> exn option) \<Rightarrow> (pyfloat \<Rightarrow> int \<Rightarrow> exn + pyfloat) \<Rightarrow> int \<Rightarrow> int \<Rightarrow> pynum
     \<Rightarrow> MotorController \<Rightarrow> stepper_run outcome" where
  "move_stepper_try os fadd steps direction speed m =
     then_do
       (say [(INFO, [S ''Moving stepper motor '', I steps, S '' steps in direction '', I direction])]
          (m\<lparr>is_moving := True\<rparr>, [m\<lparr>is_moving := True\<rparr>]))
       (\<lambda>run1. then_do (stepper_loop os fadd (nat steps) 0 direction speed run1)
          (\<lambda>(m2, seen). say [(INFO, [S ''Stepper motor movement completed. New position: '',
                                     V (current_position m2)])]
                          (m2\<lparr>is_moving := False\<rparr>, seen)))"

definition move_stepper ::
  "(nat \<Rightarrow> pynum \<Rightarrow> exn option) \<Rightarrow> (pyfloat \<Rightarrow> int \<Rightarrow> exn + pyfloat) \<Rightarrow> int \<Rightarrow> int \<Rightarrow> pynum
     \<Rightarrow> MotorController \<Rightarrow> stepper_run outcome" where
  "move_stepper os fadd steps direction speed m =
     try_except (move_stepper_try os fadd steps direction speed m)
       (\<lambda>e (m', seen). Outcome None (m'\<lparr>is_moving := False\<rparr>, seen)
                  [(ERROR, [S ''Error moving stepper motor: '', E e])])"

text \<open>
  What \<open>n\<close> successive \<open>+= direction\<close> make of a position, for stating where a move ends;
  and, for examples, a platform whose sleep always returns and a float addition without
  rounding.
\<close>

fun advance :: "(pyfloat \<Rightarrow> int \<Rightarrow> exn + pyfloat) \<Rightarrow> nat \<Rightarrow> pyval \<Rightarrow> int \<Rightarrow> exn + pyval" where
  "advance fadd 0 pos d = Inr pos"
| "advance fadd (Suc n) pos d =
     (case add_direction fadd pos d of Inl e \<Rightarrow> Inl e | Inr p \<Rightarrow> advance fadd n p d)"

definition platform_sleeps :: "nat \<Rightarrow> pynum \<Rightarrow> exn option" where
  "platform_sleeps k secs = None"

fun fadd_unrounded :: "pyfloat \<Rightarrow> int \<Rightarrow> exn + pyfloat" where
  "fadd_unrounded (Fin x) d = Inr (Fin (x + of_int d))"
| "fadd_unrounded f d = Inr f"

text \<open>\<open>0 <= angle <= 180\<close>: the second comparison is made only when the first holds.\<close>

definition angle_in_range :: "pyval \<Rightarrow> exn + bool" where
  "angle_in_range angle =
     (case le_nv (PInt 0) angle of
        Inl e \<Rightarrow> Inl e
      | Inr b \<Rightarrow> if b then le_vn angle (PInt 180) else Inr False)"

definition move_servo_try :: "pyval \<Rightarrow> int \<Rightarrow> MotorController \<Rightarrow> MotorController outcome" where
  "move_servo_try angle servo_id m =
     (case angle_in_range angle of
        Inl e \<Rightarrow> Outcome (Some e) m []
      | Inr b \<Rightarrow>
          if \<not> b
          then Outcome (Some (ValueError (Text ''Angle must be between 0 and 180 degrees''))) m []
          else Outcome None (m\<lparr>current_position := angle\<rparr>)
                 [(INFO, [S ''Moving servo '', I servo_id, S '' to angle '', V angle, S '' degrees'']),
                  (INFO, [S ''Servo '', I servo_id, S '' moved to '', V angle, S '' degrees''])])"

definition move_servo :: "pyval \<Rightarrow> int \<Rightarrow> MotorController \<Rightarrow> MotorController outcome" where
  "move_servo angle servo_id m =
     try_except (move_servo_try angle servo_id m)
       (log_only (\<lambda>e. [(ERROR, [S ''Error moving servo motor: '', E e])]))"

definition get_position :: "MotorController \<Rightarrow> pyval" where
  "get_position m = current_position m"

section \<open>SensorController\<close>

text \<open>Of the sensors only the flag that stops their polling threads is needed here.\<close>

record sensor_config =
  sensor_type :: string
  sensor_unit :: string
  sensor_interval :: pynum

record SensorController =
  sensor_configs :: "(string \<times> sensor_config) list"
  running :: bool

definition SensorController_init :: "(string \<times> sensor_config) list \<Rightarrow> SensorController" where
  "SensorController_init cfgs = \<lparr>sensor_configs = cfgs, running = False\<rparr>"

definition stop_sensor_monitoring :: "SensorController \<Rightarrow> SensorController outcome" where
  "stop_sensor_monitoring sc =
     Outcome None (sc\<lparr>running := False\<rparr>) [(INFO, [S ''Sensor monitoring stopped''])]"


section \<open>PestManagementSystem\<close>

type_synonym action = "(string \<times> pyval) list"

record config =
  cfg_relay_pins :: "int list"
  cfg_motor_pins :: "(string \<times> int list) list"
  cfg_sensors :: "(string \<times> sensor_config) list"
  pest_thresholds :: "(string \<times> pynum) list"

record PestManagementSystem =
  config :: config
  relay_controller :: RelayController
  motor_controller :: MotorController
  sensor_controller :: SensorController
  action_queue :: "action list"
  is_running :: bool

text \<open>A decimal literal stands for the float nearest to it; the unit of the temperature
  sensor is written without its degree sign.\<close>

definition default_config :: config where
  "default_config =
     \<lparr>cfg_relay_pins = [18, 19, 20, 21],
      cfg_motor_pins = [(''stepper'', [14, 15, 16, 17])],
      cfg_sensors =
        [(''temperature'', \<lparr>sensor_type = ''temperature'', sensor_unit = ''C'', sensor_interval = PInt 5\<rparr>),
         (''humidity'', \<lparr>sensor_type = ''humidity'', sensor_unit = ''%'', sensor_interval = PInt 5\<rparr>),
         (''soil_moisture'', \<lparr>sensor_type = ''soil_moisture'', sensor_unit = ''%'', sensor_interval = PInt 10\<rparr>),
         (''light'', \<lparr>sensor_type = ''light'', sensor_unit = ''lux'', sensor_interval = PInt 5\<rparr>)],
      pest_thresholds =
        [(''high_risk'', PFloat (Fin (8 / 10))),
         (''medium_risk'', PFloat (Fin (5 / 10))),
         (''low_risk'', PFloat (Fin (3 / 10)))]\<rparr>"

text \<open>
  The names bound in the module's namespace: its imports (lines 6 to 12), its logger, its
  classes and \<open>main\<close>. A name that is neither there nor a builtin raises \<open>NameError\<close>
  when it is evaluated; \<open>os\<close> is not a builtin.
\<close>

definition module_globals :: "string list" where
  "module_globals =
     [''time'', ''logging'', ''json'', ''datetime'', ''Dict'', ''List'', ''Optional'', ''Tuple'',
      ''threading'', ''queue'', ''logger'', ''RelayController'', ''MotorController'',
      ''SensorController'', ''PestManagementSystem'', ''main'']"

definition global_name :: "string \<Rightarrow> exn option" where
  "global_name name =
     (if name \<in> set module_globals then None else Some (NameError (Text name)))"

text \<open>
  The files of the machine: for a path, nothing when it does not exist, otherwise what
  opening and parsing it gives, an exception or the update the parsed dictionary makes to
  the default one.
\<close>

type_synonym file_system = "string \<Rightarrow> (exn + (config \<Rightarrow> config)) option"

text \<open>The result of a call that returns a value: the value or the exception, the files
  opened, and the records logged.\<close>

type_synonym 'a returned = "(exn + 'a) \<times> string list \<times> log_entry list"

definition load_config :: "file_system \<Rightarrow> string option \<Rightarrow> config returned" where
  "load_config fs config_file =
     (case config_file of
        None \<Rightarrow> (Inr default_config, [], [])
      | Some path \<Rightarrow>
          if path = [] then (Inr default_config, [], [])
          else (case global_name ''os'' of
                  Some e \<Rightarrow> (Inl e, [], [])
                | None \<Rightarrow>
                    (case fs path of
                       None \<Rightarrow> (Inr default_config, [], [])
                     | Some (Inl e) \<Rightarrow>
                         (Inr default_config, [path],
                          [(ERROR, [S ''Error loading config file: '', E e])])
                     | Some (Inr upd) \<Rightarrow> (Inr (upd default_config), [path], []))))"

definition initialize_controllers :: "config \<Rightarrow> PestManagementSystem outcome" where
  "initialize_controllers cfg =
     try_except
       (let r = RelayController_init (cfg_relay_pins cfg) None
        in then_do
             (Outcome (raised r)
                \<lparr>config = cfg, relay_controller = post r,
                 motor_controller = MotorController_init (cfg_motor_pins cfg) ''stepper'',
                 sensor_controller = SensorController_init (cfg_sensors cfg),
                 action_queue = [], is_running = False\<rparr>
                (logged r))
             (say [(INFO, [S ''All controllers initialized successfully''])]))
       (\<lambda>e s. Outcome (Some e) s [(ERROR, [S ''Error initializing controllers: '', E e])])"

definition PestManagementSystem_init ::
  "file_system \<Rightarrow> string option \<Rightarrow> PestManagementSystem returned" where
  "PestManagementSystem_init fs config_file =
     (case load_config fs config_file of
        (Inl e, opened, lg) \<Rightarrow> (Inl e, opened, lg)
      | (Inr cfg, opened, lg) \<Rightarrow>
          (let r = initialize_controllers cfg
           in (case raised r of
                 Some e \<Rightarrow> (Inl e, opened, lg @ logged r)
               | None \<Rightarrow> (Inr (post r), opened, lg @ logged r))))"

text \<open>A method of a controller, run on the controller the system holds.\<close>

definition on_relay ::
  "(RelayController \<Rightarrow> RelayController outcome) \<Rightarrow> PestManagementSystem \<Rightarrow> PestManagementSystem outcome" where
  "on_relay f s =
     (let r = f (relay_controller s)
      in Outcome (raised r) (s\<lparr>relay_controller := post r\<rparr>) (logged r))"

definition on_motor ::
  "(MotorController \<Rightarrow> MotorController outcome) \<Rightarrow> PestManagementSystem \<Rightarrow> PestManagementSystem outcome" where
  "on_motor f s =
     (let r = f (motor_controller s)
      in Outcome (raised r) (s\<lparr>motor_controller := post r\<rparr>) (logged r))"

definition on_sensor ::
  "(SensorController \<Rightarrow> SensorController outcome) \<Rightarrow> PestManagementSystem \<Rightarrow> PestManagementSystem outcome" where
  "on_sensor f s =
     (let r = f (sensor_controller s)
      in Outcome (raised r) (s\<lparr>sensor_controller := post r\<rparr>) (logged r))"


definition stop_system :: "PestManagementSystem \<Rightarrow> PestManagementSystem outcome" where
  "stop_system s =
     try_except
       (then_do (on_sensor stop_sensor_monitoring (s\<lparr>is_running := False\<rparr>))
          (\<lambda>s1. then_do (on_relay cleanup s1)
             (say [(INFO, [S ''Pest management system stopped''])])))
       (log_only (\<lambda>e. [(ERROR, [S ''Error stopping system: '', E e])]))"

definition spray_pesticide :: "pyval \<Rightarrow> PestManagementSystem \<Rightarrow> PestManagementSystem outcome" where
  "spray_pesticide duration s =
     then_do (say [(INFO, [S ''Spraying pesticide for '', V duration, S '' seconds''])] s)
       (on_relay (activate_relay 0 duration))"

definition activate_trap :: "pyval \<Rightarrow> PestManagementSystem \<Rightarrow> PestManagementSystem outcome" where
  "activate_trap duration s =
     then_do (say [(INFO, [S ''Activating pest trap for '', V duration, S '' seconds''])] s)
       (on_relay (activate_relay 1 duration))"

definition adjust_camera :: "pyval \<Rightarrow> PestManagementSystem \<Rightarrow> PestManagementSystem outcome" where
  "adjust_camera angle s =
     then_do (say [(INFO, [S ''Adjusting camera to '', V angle, S '' degrees''])] s)
       (on_motor (move_servo angle 0))"

definition emergency_shutdown :: "PestManagementSystem \<Rightarrow> PestManagementSystem outcome" where
  "emergency_shutdown s =
     then_do (say [(WARNING, [S ''Emergency shutdown activated''])] s)
       (\<lambda>s1. then_do
          (fold (\<lambda>pin r. then_do r (on_relay (deactivate_relay pin)))
             (cfg_relay_pins (config s1)) (Outcome None s1 []))
          stop_system)"

definition execute_action_try :: "action \<Rightarrow> PestManagementSystem \<Rightarrow> PestManagementSystem outcome" where
  "execute_action_try a s =
     (let action_type = dict_get a ''type'' VNone
      in if action_type = VStr ''spray_pesticide''
         then spray_pesticide (dict_get a ''duration'' (VNum (PInt 5))) s
         else if action_type = VStr ''activate_trap''
         then activate_trap (dict_get a ''duration'' (VNum (PInt 30))) s
         else if action_type = VStr ''adjust_camera''
         then adjust_camera (dict_get a ''angle'' (VNum (PInt 90))) s
         else if action_type = VStr ''emergency_shutdown''
         then emergency_shutdown s
         else say [(WARNING, [S ''Unknown action type: '', V action_type])] s)"

definition execute_action :: "action \<Rightarrow> PestManagementSystem \<Rightarrow> PestManagementSystem outcome" where
  "execute_action a s =
     try_except (execute_action_try a s)
       (log_only (\<lambda>e. [(ERROR, [S ''Error executing action '', V (dict_get a ''type'' VNone),
                               S '': '', E e])]))"

text \<open>
  One turn of the worker's loop body: \<open>get(timeout=1)\<close> takes the oldest action or
  raises \<open>queue.Empty\<close>, which the first handler answers with \<open>continue\<close>; the second
  handler logs any other exception.
\<close>

definition worker_iteration :: "PestManagementSystem \<Rightarrow> PestManagementSystem outcome" where
  "worker_iteration s =
     try_except
       (case action_queue s of
          [] \<Rightarrow> Outcome (Some QueueEmpty) s []
        | a # q \<Rightarrow> execute_action a (s\<lparr>action_queue := q\<rparr>))
       (\<lambda>e s'. if e = QueueEmpty then Outcome None s' []
                else Outcome None s' [(ERROR, [S ''Error processing action: '', E e])])"


definition add_action :: "action \<Rightarrow> PestManagementSystem \<Rightarrow> PestManagementSystem" where
  "add_action a s = s\<lparr>action_queue := action_queue s @ [a]\<rparr>"

text \<open>The \<open>if\<close>/\<open>elif\<close>/\<open>else\<close> that chooses \<open>actions\<close>; a threshold is looked up
  only when its comparison is reached, and before the comparison is made.\<close>

definition select_actions :: "(string \<times> pynum) list \<Rightarrow> pyval \<Rightarrow> exn + action list" where
  "select_actions thresholds confidence =
     (case dict_index thresholds ''high_risk'' of
        Inl e \<Rightarrow> Inl e
      | Inr high \<Rightarrow>
          (case ge_vn confidence high of
             Inl e \<Rightarrow> Inl e
           | Inr b \<Rightarrow>
               if b
               then Inr [[(''type'', VStr ''spray_pesticide''), (''duration'', VNum (PInt 10))],
                         [(''type'', VStr ''activate_trap''), (''duration'', VNum (PInt 60))]]
               else (case dict_index thresholds ''medium_risk'' of
                       Inl e \<Rightarrow> Inl e
                     | Inr medium \<Rightarrow>
                         (case ge_vn confidence medium of
                            Inl e \<Rightarrow> Inl e
                          | Inr b2 \<Rightarrow>
                              if b2
                              then Inr [[(''type'', VStr ''spray_pesticide''), (''duration'', VNum (PInt 5))],
                                        [(''type'', VStr ''activate_trap''), (''duration'', VNum (PInt 30))]]
                              else Inr [[(''type'', VStr ''activate_trap''), (''duration'', VNum (PInt 15))]]))))"

definition trigger_pest_response_try ::
  "string \<Rightarrow> pyval \<Rightarrow> pynum \<times> pynum \<Rightarrow> PestManagementSystem \<Rightarrow> PestManagementSystem outcome" where
  "trigger_pest_response_try pest_type confidence location s =
     (case select_actions (pest_thresholds (config s)) confidence of
        Inl e \<Rightarrow> Outcome (Some e) s []
      | Inr actions \<Rightarrow>
          Outcome None (fold add_action actions s)
            [(INFO, [S ''Triggered pest response for '', S pest_type, S '' (confidence: '',
                     V confidence, S '')''])])"

definition trigger_pest_response ::
  "string \<Rightarrow> pyval \<Rightarrow> pynum \<times> pynum \<Rightarrow> PestManagementSystem \<Rightarrow> PestManagementSystem outcome" where
  "trigger_pest_response pest_type confidence location s =
     try_except (trigger_pest_response_try pest_type confidence location s)
       (log_only (\<lambda>e. [(ERROR, [S ''Error triggering pest response: '', E e])]))"

subsection \<open>The risk policy as the specification names it\<close>

text \<open>
  The source has no function of its own for the tier: the tier is the branch of
  \<open>select_actions\<close> that is taken, named in its comments. \<open>classify\<close> and
  \<open>actions_for\<close> follow the specification's words and are compared with the source below.
\<close>

datatype risk_tier = Low | Medium | High

text \<open>\<open>a < b\<close> on numbers, for the specification's \<open>medium_risk \<le> confidence < high_risk\<close>;
  the source itself only uses \<open>>=\<close>.\<close>

definition num_lt :: "pynum \<Rightarrow> pynum \<Rightarrow> bool" where
  "num_lt a b = (num_le a b \<and> \<not> num_le b a)"

definition is_nan :: "pynum \<Rightarrow> bool" where
  "is_nan a = (num_val a = NaN)"

fun tier_rank :: "risk_tier \<Rightarrow> nat" where
  "tier_rank Low = 0"
| "tier_rank Medium = 1"
| "tier_rank High = 2"

definition classify :: "pynum \<Rightarrow> pynum \<Rightarrow> pynum \<Rightarrow> risk_tier" where
  "classify high_risk medium_risk confidence =
     (if num_le high_risk confidence then High
      else if num_le medium_risk confidence then Medium
      else Low)"

fun actions_for :: "risk_tier \<Rightarrow> action list" where
  "actions_for High =
     [[(''type'', VStr ''spray_pesticide''), (''duration'', VNum (PInt 10))],
      [(''type'', VStr ''activate_trap''), (''duration'', VNum (PInt 60))]]"
| "actions_for Medium =
     [[(''type'', VStr ''spray_pesticide''), (''duration'', VNum (PInt 5))],
      [(''type'', VStr ''activate_trap''), (''duration'', VNum (PInt 30))]]"
| "actions_for Low =
     [[(''type'', VStr ''activate_trap''), (''duration'', VNum (PInt 15))]]"

section \<open>Properties of the relay controller\<close>

lemma try_except_raised [simp]: "raised (try_except r (log_only f)) = None"
  by (simp add: try_except_def log_only_def split: option.splits)

lemma try_except_post [simp]: "post (try_except r (log_only f)) = post r"
  by (simp add: try_except_def log_only_def split: option.splits)

lemma fold_upd_dom: "dom (fold (\<lambda>pin m. m(pin \<mapsto> False)) pins m0) = dom m0 \<union> set pins"
  by (induction pins arbitrary: m0) auto

lemma init_fields:
  "relay_pins (post (RelayController_init pins g)) = pins"
  "dom (relay_states (post (RelayController_init pins g))) = set pins"
  by (auto simp: RelayController_init_def setup_gpio_def fold_upd_dom split: option.splits)

lemma activate_fields:
  "relay_pins (post (activate_relay pin d rc)) = relay_pins rc"
  "dom (relay_states (post (activate_relay pin d rc))) = dom (relay_states rc) \<union>
     (if raised (activate_relay_try pin d rc) = None then {pin} else {})"
  by (auto simp: activate_relay_def activate_relay_try_def Let_def split: option.splits)

lemma deactivate_fields:
  "relay_pins (post (deactivate_relay pin rc)) = relay_pins rc"
  "dom (relay_states (post (deactivate_relay pin rc))) = dom (relay_states rc) \<union>
     (if raised (deactivate_relay_try pin rc) = None then {pin} else {})"
  by (auto simp: deactivate_relay_def deactivate_relay_try_def split: option.splits)

lemma cleanup_post: "post (cleanup rc) = rc"
  by (simp add: cleanup_def split: option.splits)

lemma activate_try_ok_pin: "raised (activate_relay_try pin d rc) = None \<Longrightarrow> pin \<in> set (relay_pins rc)"
  by (auto simp: activate_relay_try_def split: if_splits)

lemma deactivate_try_ok_pin: "raised (deactivate_relay_try pin rc) = None \<Longrightarrow> pin \<in> set (relay_pins rc)"
  by (auto simp: deactivate_relay_try_def split: if_splits)

lemma reachable_dom: "reachable_relay rc \<Longrightarrow> dom (relay_states rc) = set (relay_pins rc)"
proof (induction rule: reachable_relay.induct)
  case (rc_init pins g)
  show ?case by (simp add: init_fields)
next
  case (rc_activate rc pin duration)
  then show ?case
    using activate_try_ok_pin [of pin duration rc] by (auto simp: activate_fields split: if_splits)
next
  case (rc_deactivate rc pin)
  then show ?case
    using deactivate_try_ok_pin [of pin rc] by (auto simp: deactivate_fields split: if_splits)
next
  case (rc_cleanup rc)
  then show ?case by (simp add: cleanup_post)
qed

lemma try_except_logged_ok: "raised r = None \<Longrightarrow> try_except r h = r"
  by (simp add: try_except_def)

lemma try_except_log_only:
  "raised r = Some e \<Longrightarrow> try_except r (log_only f) = Outcome None (post r) (logged r @ f e)"
  by (simp add: try_except_def log_only_def)







text \<open>
  \<^bold>\<open>C10.\<close> For a pin that is not among the configured relay pins, \<open>get_relay_state\<close>
  returns \<open>False\<close>, the default of the lookup, on every controller the constructor and the
  methods can produce: the state dictionary never holds a key outside the configured pins.
\<close>

theorem get_relay_state_unknown_pin:
  assumes "reachable_relay rc" and "p \<notin> set (relay_pins rc)"
  shows "get_relay_state rc p = False"
proof -
  from assms have "p \<notin> dom (relay_states rc)" by (simp add: reachable_dom)
  then show ?thesis by (auto simp: get_relay_state_def split: option.splits)
qed

theorem get_relay_state_unknown_pin_witness:
  "reachable_relay (post (activate_relay 18 VNone (post (RelayController_init [18, 19, 20, 21] None))))
   \<and> 5 \<notin> set (relay_pins (post (activate_relay 18 VNone (post (RelayController_init [18, 19, 20, 21] None)))))
   \<and> get_relay_state (post (activate_relay 18 VNone (post (RelayController_init [18, 19, 20, 21] None)))) 5 = False"
proof -
  let ?rc = "post (activate_relay 18 VNone (post (RelayController_init [18, 19, 20, 21] None)))"
  have r: "reachable_relay ?rc" by (intro rc_activate rc_init)
  have p: "5 \<notin> set (relay_pins ?rc)" by (simp add: activate_fields init_fields)
  from r p get_relay_state_unknown_pin [OF r p] show ?thesis by simp
qed

text \<open>
  \<^bold>\<open>C3, as stated, fails.\<close> Pin 5 is not among the pins 18 to 21, yet both
  \<open>activate_relay\<close> and \<open>deactivate_relay\<close> return normally: no exception reaches the
  caller.
\<close>

theorem invalid_pin_not_reported:
  "5 \<notin> set (relay_pins (post (RelayController_init [18, 19, 20, 21] None)))
   \<and> raised (activate_relay 5 VNone (post (RelayController_init [18, 19, 20, 21] None))) = None
   \<and> raised (deactivate_relay 5 (post (RelayController_init [18, 19, 20, 21] None))) = None"
  by (simp add: init_fields activate_relay_def deactivate_relay_def)

text \<open>
  \<^bold>\<open>C3, amended.\<close> For a pin that is not configured, the body of \<open>activate_relay\<close>
  and of \<open>deactivate_relay\<close> raises \<open>ValueError\<close> (invalid relay pin); the method's own
  handler catches it and logs it as an error, the call returns normally, and the
  controller, with every relay state, is left as it was.
\<close>

theorem invalid_pin_logged:
  assumes "pin \<notin> set (relay_pins rc)"
  shows "activate_relay_try pin duration rc =
           Outcome (Some (ValueError (TextInt ''Invalid relay pin: '' pin))) rc []
       \<and> activate_relay pin duration rc =
           Outcome None rc [(ERROR, [S ''Error activating relay '', I pin, S '': '',
                                      E (ValueError (TextInt ''Invalid relay pin: '' pin))])]
       \<and> deactivate_relay_try pin rc =
           Outcome (Some (ValueError (TextInt ''Invalid relay pin: '' pin))) rc []
       \<and> deactivate_relay pin rc =
           Outcome None rc [(ERROR, [S ''Error deactivating relay '', I pin, S '': '',
                                      E (ValueError (TextInt ''Invalid relay pin: '' pin))])]"
  using assms
  by (simp add: activate_relay_def activate_relay_try_def deactivate_relay_def
      deactivate_relay_try_def try_except_log_only)

theorem invalid_pin_logged_witness:
  "5 \<notin> set (relay_pins (post (RelayController_init [18, 19, 20, 21] None)))
   \<and> raised (activate_relay 5 (VNum (PInt 10)) (post (RelayController_init [18, 19, 20, 21] None))) = None
   \<and> post (activate_relay 5 (VNum (PInt 10)) (post (RelayController_init [18, 19, 20, 21] None)))
       = post (RelayController_init [18, 19, 20, 21] None)
   \<and> post (deactivate_relay 5 (post (RelayController_init [18, 19, 20, 21] None)))
       = post (RelayController_init [18, 19, 20, 21] None)"
proof -
  let ?rc = "post (RelayController_init [18, 19, 20, 21] None)"
  have p: "5 \<notin> set (relay_pins ?rc)" by (simp add: init_fields)
  from p invalid_pin_logged [OF p, of "VNum (PInt 10)"] show ?thesis by simp
qed



section \<open>Properties of the motor controller\<close>

lemma angle_in_range_num:
  "angle_in_range (VNum a) = Inr (num_le (PInt 0) a \<and> num_le a (PInt 180))"
  by (simp add: angle_in_range_def)

lemma advance_int:
  "advance fadd n (VNum (PInt p)) d = Inr (VNum (PInt (p + int n * d)))"
proof (induction n arbitrary: p)
  case 0
  show ?case by simp
next
  case (Suc n)
  show ?case using Suc.IH [of "p + d"] by (simp add: add_direction_def algebra_simps)
qed

lemma stepper_loop_completes:
  assumes "\<forall>k<n. time_sleep os (i + k) speed = None"
    and "advance fadd n (current_position m) d = Inr pos'"
  shows "\<exists>obs. stepper_loop os fadd n i d speed (m, seen) =
           Outcome None (m\<lparr>current_position := pos'\<rparr>, seen @ obs) []
         \<and> length obs = n \<and> (\<forall>st \<in> set obs. is_moving st = is_moving m)"
  using assms
proof (induction n arbitrary: i m seen)
  case 0
  then show ?case by simp
next
  case (Suc n)
  from Suc.prems(1) have s0: "time_sleep os i speed = None" by force
  from Suc.prems(2) obtain p where p: "add_direction fadd (current_position m) d = Inr p"
    and adv: "advance fadd n p d = Inr pos'"
    by (auto split: sum.splits)
  have rest: "\<forall>k<n. time_sleep os (Suc i + k) speed = None"
    using Suc.prems(1) by auto
  let ?m1 = "m\<lparr>current_position := p\<rparr>"
  from adv have adv1: "advance fadd n (current_position ?m1) d = Inr pos'" by simp
  from Suc.IH [OF rest adv1, of "seen @ [m]"] obtain obs where
    o: "stepper_loop os fadd n (Suc i) d speed (?m1, seen @ [m]) =
          Outcome None (?m1\<lparr>current_position := pos'\<rparr>, (seen @ [m]) @ obs) []"
    and l: "length obs = n" and a: "\<forall>st \<in> set obs. is_moving st = is_moving ?m1"
    by blast
  have "stepper_loop os fadd (Suc n) i d speed (m, seen) =
          Outcome None (m\<lparr>current_position := pos'\<rparr>, seen @ (m # obs)) []"
    using s0 p o by simp
  moreover have "length (m # obs) = Suc n" using l by simp
  moreover have "\<forall>st \<in> set (m # obs). is_moving st = is_moving m" using a by simp
  ultimately show ?case by blast
qed

lemma stepper_loop_fails:
  assumes "j < n" and "\<forall>k<j. time_sleep os (i + k) speed = None"
    and "time_sleep os (i + j) speed = Some e"
    and "advance fadd j (current_position m) d = Inr pos_j"
  shows "\<exists>obs. stepper_loop os fadd n i d speed (m, seen) =
           Outcome (Some e) (m\<lparr>current_position := pos_j\<rparr>, seen @ obs) []
         \<and> length obs = Suc j \<and> (\<forall>st \<in> set obs. is_moving st = is_moving m)"
  using assms
proof (induction j arbitrary: n i m seen)
  case 0
  then obtain n' where n: "n = Suc n'" by (cases n) auto
  from 0 have "stepper_loop os fadd n i d speed (m, seen) =
          Outcome (Some e) (m\<lparr>current_position := pos_j\<rparr>, seen @ [m]) []"
    by (simp add: n)
  then show ?case by force
next
  case (Suc j)
  then obtain n' where n: "n = Suc n'" and jn: "j < n'" by (cases n) auto
  from Suc.prems(2) have s0: "time_sleep os i speed = None" by force
  from Suc.prems(4) obtain p where p: "add_direction fadd (current_position m) d = Inr p"
    and adv: "advance fadd j p d = Inr pos_j"
    by (auto split: sum.splits)
  have rest: "\<forall>k<j. time_sleep os (Suc i + k) speed = None"
    using Suc.prems(2) by auto
  have sj: "time_sleep os (Suc i + j) speed = Some e" using Suc.prems(3) by simp
  let ?m1 = "m\<lparr>current_position := p\<rparr>"
  from adv have adv1: "advance fadd j (current_position ?m1) d = Inr pos_j" by simp
  from Suc.IH [OF jn rest sj adv1, of "seen @ [m]"] obtain obs where
    o: "stepper_loop os fadd n' (Suc i) d speed (?m1, seen @ [m]) =
          Outcome (Some e) (?m1\<lparr>current_position := pos_j\<rparr>, (seen @ [m]) @ obs) []"
    and l: "length obs = Suc j" and a: "\<forall>st \<in> set obs. is_moving st = is_moving ?m1"
    by blast
  have "stepper_loop os fadd n i d speed (m, seen) =
          Outcome (Some e) (m\<lparr>current_position := pos_j\<rparr>, seen @ (m # obs)) []"
    using s0 p o by (simp add: n)
  moreover have "length (m # obs) = Suc (Suc j)" using l by simp
  moreover have "\<forall>st \<in> set (m # obs). is_moving st = is_moving m" using a by simp
  ultimately show ?case by blast
qed

lemma stepper_loop_returned:
  assumes "raised (stepper_loop os fadd n i d speed (m, seen)) = None"
  shows "(\<forall>k<n. time_sleep os (i + k) speed = None)
       \<and> (\<exists>pos'. advance fadd n (current_position m) d = Inr pos')"
  using assms
proof (induction n arbitrary: i m seen)
  case 0
  show ?case by simp
next
  case (Suc n)
  from Suc.prems have s0: "time_sleep os i speed = None"
    by (cases "time_sleep os i speed") simp_all
  from Suc.prems s0 obtain p where p: "add_direction fadd (current_position m) d = Inr p"
    by (cases "add_direction fadd (current_position m) d") simp_all
  let ?m1 = "m\<lparr>current_position := p\<rparr>"
  from Suc.prems s0 p
  have r: "raised (stepper_loop os fadd n (Suc i) d speed (?m1, seen @ [m])) = None" by simp
  from Suc.IH [OF r] have a: "\<forall>k<n. time_sleep os (Suc i + k) speed = None"
    and b: "\<exists>pos'. advance fadd n p d = Inr pos'" by simp_all
  have "\<forall>k<Suc n. time_sleep os (i + k) speed = None"
  proof (intro allI impI)
    fix k assume "k < Suc n"
    show "time_sleep os (i + k) speed = None"
    proof (cases k)
      case 0
      then show ?thesis using s0 by simp
    next
      case (Suc k')
      with \<open>k < Suc n\<close> a show ?thesis by simp
    qed
  qed
  moreover have "\<exists>pos'. advance fadd (Suc n) (current_position m) d = Inr pos'"
    using p b by simp
  ultimately show ?case by blast
qed

lemma move_stepper_completes:
  assumes "\<forall>k<nat steps. time_sleep os k speed = None"
    and "advance fadd (nat steps) (current_position m) direction = Inr pos'"
  shows "\<exists>obs. move_stepper_try os fadd steps direction speed m =
           Outcome None (m\<lparr>current_position := pos', is_moving := False\<rparr>, obs)
             [(INFO, [S ''Moving stepper motor '', I steps, S '' steps in direction '', I direction]),
              (INFO, [S ''Stepper motor movement completed. New position: '', V pos'])]
         \<and> length obs = Suc (nat steps) \<and> (\<forall>st \<in> set obs. is_moving st = True)"
proof -
  let ?m1 = "m\<lparr>is_moving := True\<rparr>"
  have s: "\<forall>k<nat steps. time_sleep os (0 + k) speed = None" using assms(1) by simp
  have a: "advance fadd (nat steps) (current_position ?m1) direction = Inr pos'"
    using assms(2) by simp
  from stepper_loop_completes [OF s a, of "[?m1]"] obtain obs where
    o: "stepper_loop os fadd (nat steps) 0 direction speed (?m1, [?m1]) =
          Outcome None (?m1\<lparr>current_position := pos'\<rparr>, [?m1] @ obs) []"
    and l: "length obs = nat steps" and t: "\<forall>st \<in> set obs. is_moving st = is_moving ?m1"
    by blast
  have "move_stepper_try os fadd steps direction speed m =
           Outcome None (m\<lparr>current_position := pos', is_moving := False\<rparr>, ?m1 # obs)
             [(INFO, [S ''Moving stepper motor '', I steps, S '' steps in direction '', I direction]),
              (INFO, [S ''Stepper motor movement completed. New position: '', V pos'])]"
    by (simp add: move_stepper_try_def then_do_def say_def o)
  moreover have "length (?m1 # obs) = Suc (nat steps)" using l by simp
  moreover have "\<forall>st \<in> set (?m1 # obs). is_moving st = True" using t by simp
  ultimately show ?thesis by blast
qed

lemma move_stepper_fails:
  assumes "j < nat steps" and "\<forall>k<j. time_sleep os k speed = None"
    and "time_sleep os j speed = Some e"
    and "advance fadd j (current_position m) direction = Inr pos_j"
  shows "\<exists>obs. move_stepper os fadd steps direction speed m =
           Outcome None (m\<lparr>current_position := pos_j, is_moving := False\<rparr>, obs)
             [(INFO, [S ''Moving stepper motor '', I steps, S '' steps in direction '', I direction]),
              (ERROR, [S ''Error moving stepper motor: '', E e])]
         \<and> length obs = Suc (Suc j) \<and> (\<forall>st \<in> set obs. is_moving st = True)"
proof -
  let ?m1 = "m\<lparr>is_moving := True\<rparr>"
  have s: "\<forall>k<j. time_sleep os (0 + k) speed = None" using assms(2) by simp
  have sj: "time_sleep os (0 + j) speed = Some e" using assms(3) by simp
  have a: "advance fadd j (current_position ?m1) direction = Inr pos_j"
    using assms(4) by simp
  from stepper_loop_fails [OF assms(1) s sj a, of "[?m1]"] obtain obs where
    o: "stepper_loop os fadd (nat steps) 0 direction speed (?m1, [?m1]) =
          Outcome (Some e) (?m1\<lparr>current_position := pos_j\<rparr>, [?m1] @ obs) []"
    and l: "length obs = Suc j" and t: "\<forall>st \<in> set obs. is_moving st = is_moving ?m1"
    by blast
  have "move_stepper os fadd steps direction speed m =
           Outcome None (m\<lparr>current_position := pos_j, is_moving := False\<rparr>, ?m1 # obs)
             [(INFO, [S ''Moving stepper motor '', I steps, S '' steps in direction '', I direction]),
              (ERROR, [S ''Error moving stepper motor: '', E e])]"
    by (simp add: move_stepper_def move_stepper_try_def then_do_def say_def try_except_def o)
  moreover have "length (?m1 # obs) = Suc (Suc j)" using l by simp
  moreover have "\<forall>st \<in> set (?m1 # obs). is_moving st = True" using t by simp
  ultimately show ?thesis by blast
qed

lemma move_stepper_try_returned:
  assumes "raised (move_stepper_try os fadd steps direction speed m) = None"
  shows "(\<forall>k<nat steps. time_sleep os k speed = None)
       \<and> (\<exists>pos'. advance fadd (nat steps) (current_position m) direction = Inr pos')"
proof -
  let ?m1 = "m\<lparr>is_moving := True\<rparr>"
  have "raised (stepper_loop os fadd (nat steps) 0 direction speed (?m1, [?m1])) = None"
    using assms
    by (cases "raised (stepper_loop os fadd (nat steps) 0 direction speed (?m1, [?m1]))")
       (simp_all add: move_stepper_try_def then_do_def say_def Let_def)
  from stepper_loop_returned [OF this] show ?thesis by simp
qed

lemma sleep_too_long:
  "num_le (PInt (10 ^ 10)) speed \<Longrightarrow>
   time_sleep os k speed = Some (OverflowError (Text ''timestamp too large to convert to C _PyTime_t''))"
  by (cases "num_val speed") (simp_all add: num_le_def time_sleep_def sleep_argument_def)

lemma sleep_passed_on:
  "num_val speed = Fin x \<Longrightarrow> 0 \<le> x \<Longrightarrow> x < 10 ^ 10 \<Longrightarrow> time_sleep os k speed = os k speed"
  by (simp add: time_sleep_def sleep_argument_def)

text \<open>
  \<^bold>\<open>C7, as stated, fails.\<close> The delay \<open>10^10\<close> is positive, and
  \<open>move_stepper\<close> with one step in direction 1 completes (it returns normally), yet
  the position is still 0, not \<open>0 + 1 * 1\<close>: \<open>time.sleep\<close> raises for that delay and
  the handler of \<open>move_stepper\<close> only logs.
\<close>

theorem stepper_rejected_delay_keeps_position:
  "num_lt (PInt 0) (PInt 10000000000)
   \<and> get_position (MotorController_init [(''stepper'', [14, 15, 16, 17])] ''stepper'') = VNum (PInt 0)
   \<and> raised (move_stepper platform_sleeps fadd_unrounded 1 1 (PInt 10000000000) (MotorController_init [(''stepper'', [14, 15, 16, 17])] ''stepper'')) = None
   \<and> get_position (fst (post (move_stepper platform_sleeps fadd_unrounded 1 1 (PInt 10000000000) (MotorController_init [(''stepper'', [14, 15, 16, 17])] ''stepper''))))
       = VNum (PInt 0)
   \<and> VNum (PInt 0) \<noteq> VNum (PInt (0 + 1 * 1))"
  by (simp add: num_lt_def num_le_def get_position_def MotorController_init_def move_stepper_def
      move_stepper_try_def then_do_def say_def try_except_def time_sleep_def sleep_argument_def)

text \<open>
  \<^bold>\<open>C7, amended.\<close> For \<open>steps \<ge> 0\<close> and any direction: when every \<open>time.sleep\<close>
  of the move returns, the move completes, the position is the prior one after \<open>steps\<close>
  successive additions of the direction, \<open>is_moving\<close> is \<open>False\<close> afterwards, and it
  was \<open>True\<close> in each of the \<open>steps + 1\<close> states the move showed while it waited. For an
  integer prior position \<open>steps\<close> additions give the prior position plus
  \<open>steps * direction\<close>. A move whose body raises nothing had every sleep return. When
  the sleep of step \<open>j\<close> raises, the call still returns normally with the error logged,
  \<open>is_moving\<close> \<open>False\<close> and the position advanced by the \<open>j\<close> steps before it.
  \<open>time.sleep\<close> raises for every delay of at least \<open>10^10\<close>, and hands a delay in
  \<open>[0, 10^10)\<close> to the platform.
\<close>

theorem move_stepper_position:
  assumes "0 \<le> steps"
  shows "((\<forall>k<nat steps. time_sleep os k speed = None)
          \<and> advance fadd (nat steps) (current_position m) direction = Inr pos' \<longrightarrow>
            raised (move_stepper_try os fadd steps direction speed m) = None
          \<and> raised (move_stepper os fadd steps direction speed m) = None
          \<and> get_position (fst (post (move_stepper os fadd steps direction speed m))) = pos'
          \<and> is_moving (fst (post (move_stepper os fadd steps direction speed m))) = False
          \<and> length (snd (post (move_stepper os fadd steps direction speed m))) = Suc (nat steps)
          \<and> (\<forall>st \<in> set (snd (post (move_stepper os fadd steps direction speed m))). is_moving st = True))
       \<and> (current_position m = VNum (PInt p) \<longrightarrow>
            advance fadd (nat steps) (current_position m) direction
              = Inr (VNum (PInt (p + steps * direction)))
          \<and> advance fadd j (current_position m) direction
              = Inr (VNum (PInt (p + int j * direction))))
       \<and> (raised (move_stepper_try os fadd steps direction speed m) = None \<longrightarrow>
            (\<forall>k<nat steps. time_sleep os k speed = None)
          \<and> (\<exists>pos'. advance fadd (nat steps) (current_position m) direction = Inr pos'))
       \<and> (j < nat steps \<and> (\<forall>k<j. time_sleep os k speed = None) \<and> time_sleep os j speed = Some e
          \<and> advance fadd j (current_position m) direction = Inr pos_j \<longrightarrow>
            raised (move_stepper os fadd steps direction speed m) = None
          \<and> get_position (fst (post (move_stepper os fadd steps direction speed m))) = pos_j
          \<and> is_moving (fst (post (move_stepper os fadd steps direction speed m))) = False
          \<and> logged (move_stepper os fadd steps direction speed m) =
              [(INFO, [S ''Moving stepper motor '', I steps, S '' steps in direction '', I direction]),
               (ERROR, [S ''Error moving stepper motor: '', E e])]
          \<and> (\<forall>st \<in> set (snd (post (move_stepper os fadd steps direction speed m))). is_moving st = True))
       \<and> (num_le (PInt (10 ^ 10)) speed \<longrightarrow>
            time_sleep os j speed = Some (OverflowError (Text ''timestamp too large to convert to C _PyTime_t'')))
       \<and> (num_val speed = Fin x \<and> 0 \<le> x \<and> x < 10 ^ 10 \<longrightarrow> time_sleep os j speed = os j speed)"
proof -
  have c1: "(\<forall>k<nat steps. time_sleep os k speed = None)
          \<and> advance fadd (nat steps) (current_position m) direction = Inr pos' \<longrightarrow>
            raised (move_stepper_try os fadd steps direction speed m) = None
          \<and> raised (move_stepper os fadd steps direction speed m) = None
          \<and> get_position (fst (post (move_stepper os fadd steps direction speed m))) = pos'
          \<and> is_moving (fst (post (move_stepper os fadd steps direction speed m))) = False
          \<and> length (snd (post (move_stepper os fadd steps direction speed m))) = Suc (nat steps)
          \<and> (\<forall>st \<in> set (snd (post (move_stepper os fadd steps direction speed m))). is_moving st = True)"
  proof
    assume h: "(\<forall>k<nat steps. time_sleep os k speed = None)
          \<and> advance fadd (nat steps) (current_position m) direction = Inr pos'"
    then have h1: "\<forall>k<nat steps. time_sleep os k speed = None"
      and h2: "advance fadd (nat steps) (current_position m) direction = Inr pos'" by simp_all
    from move_stepper_completes [OF h1 h2] obtain obs where
      t: "move_stepper_try os fadd steps direction speed m =
           Outcome None (m\<lparr>current_position := pos', is_moving := False\<rparr>, obs)
             [(INFO, [S ''Moving stepper motor '', I steps, S '' steps in direction '', I direction]),
              (INFO, [S ''Stepper motor movement completed. New position: '', V pos'])]"
      and l: "length obs = Suc (nat steps)" and a: "\<forall>st \<in> set obs. is_moving st = True"
      by blast
    have r: "raised (move_stepper_try os fadd steps direction speed m) = None" by (simp add: t)
    have ms: "move_stepper os fadd steps direction speed m = move_stepper_try os fadd steps direction speed m"
      by (simp add: move_stepper_def try_except_logged_ok r)
    show "raised (move_stepper_try os fadd steps direction speed m) = None
          \<and> raised (move_stepper os fadd steps direction speed m) = None
          \<and> get_position (fst (post (move_stepper os fadd steps direction speed m))) = pos'
          \<and> is_moving (fst (post (move_stepper os fadd steps direction speed m))) = False
          \<and> length (snd (post (move_stepper os fadd steps direction speed m))) = Suc (nat steps)
          \<and> (\<forall>st \<in> set (snd (post (move_stepper os fadd steps direction speed m))). is_moving st = True)"
      using l a by (simp add: ms t get_position_def)
  qed
  have c2: "current_position m = VNum (PInt p) \<longrightarrow>
            advance fadd (nat steps) (current_position m) direction
              = Inr (VNum (PInt (p + steps * direction)))
          \<and> advance fadd j (current_position m) direction
              = Inr (VNum (PInt (p + int j * direction)))"
    using assms by (simp add: advance_int)
  have c3: "raised (move_stepper_try os fadd steps direction speed m) = None \<longrightarrow>
            (\<forall>k<nat steps. time_sleep os k speed = None)
          \<and> (\<exists>pos'. advance fadd (nat steps) (current_position m) direction = Inr pos')"
    using move_stepper_try_returned by blast
  have c4: "j < nat steps \<and> (\<forall>k<j. time_sleep os k speed = None) \<and> time_sleep os j speed = Some e
          \<and> advance fadd j (current_position m) direction = Inr pos_j \<longrightarrow>
            raised (move_stepper os fadd steps direction speed m) = None
          \<and> get_position (fst (post (move_stepper os fadd steps direction speed m))) = pos_j
          \<and> is_moving (fst (post (move_stepper os fadd steps direction speed m))) = False
          \<and> logged (move_stepper os fadd steps direction speed m) =
              [(INFO, [S ''Moving stepper motor '', I steps, S '' steps in direction '', I direction]),
               (ERROR, [S ''Error moving stepper motor: '', E e])]
          \<and> (\<forall>st \<in> set (snd (post (move_stepper os fadd steps direction speed m))). is_moving st = True)"
  proof
    assume h: "j < nat steps \<and> (\<forall>k<j. time_sleep os k speed = None) \<and> time_sleep os j speed = Some e
          \<and> advance fadd j (current_position m) direction = Inr pos_j"
    then have h1: "j < nat steps" and h2: "\<forall>k<j. time_sleep os k speed = None"
      and h3: "time_sleep os j speed = Some e"
      and h4: "advance fadd j (current_position m) direction = Inr pos_j" by simp_all
    from move_stepper_fails [OF h1 h2 h3 h4] obtain obs where
      t: "move_stepper os fadd steps direction speed m =
           Outcome None (m\<lparr>current_position := pos_j, is_moving := False\<rparr>, obs)
             [(INFO, [S ''Moving stepper motor '', I steps, S '' steps in direction '', I direction]),
              (ERROR, [S ''Error moving stepper motor: '', E e])]"
      and a: "\<forall>st \<in> set obs. is_moving st = True"
      by blast
    show "raised (move_stepper os fadd steps direction speed m) = None
          \<and> get_position (fst (post (move_stepper os fadd steps direction speed m))) = pos_j
          \<and> is_moving (fst (post (move_stepper os fadd steps direction speed m))) = False
          \<and> logged (move_stepper os fadd steps direction speed m) =
              [(INFO, [S ''Moving stepper motor '', I steps, S '' steps in direction '', I direction]),
               (ERROR, [S ''Error moving stepper motor: '', E e])]
          \<and> (\<forall>st \<in> set (snd (post (move_stepper os fadd steps direction speed m))). is_moving st = True)"
      using a by (simp add: t get_position_def)
  qed
  have c5: "num_le (PInt (10 ^ 10)) speed \<longrightarrow>
            time_sleep os j speed = Some (OverflowError (Text ''timestamp too large to convert to C _PyTime_t''))"
    using sleep_too_long by blast
  have c6: "num_val speed = Fin x \<and> 0 \<le> x \<and> x < 10 ^ 10 \<longrightarrow> time_sleep os j speed = os j speed"
    using sleep_passed_on by blast
  from c1 c2 c3 c4 c5 c6 show ?thesis by blast
qed

theorem move_stepper_position_witness:
  "(0::int) \<le> 3
   \<and> time_sleep platform_sleeps 0 (PFloat (Fin (1 / 100))) = None
   \<and> time_sleep platform_sleeps 1 (PFloat (Fin (1 / 100))) = None
   \<and> time_sleep platform_sleeps 2 (PFloat (Fin (1 / 100))) = None
   \<and> current_position (MotorController_init [(''stepper'', [14, 15, 16, 17])] ''stepper'') = VNum (PInt 0)
   \<and> raised (move_stepper_try platform_sleeps fadd_unrounded 3 (- 1) (PFloat (Fin (1 / 100))) (MotorController_init [(''stepper'', [14, 15, 16, 17])] ''stepper'')) = None
   \<and> get_position (fst (post (move_stepper platform_sleeps fadd_unrounded 3 (- 1) (PFloat (Fin (1 / 100))) (MotorController_init [(''stepper'', [14, 15, 16, 17])] ''stepper'')))) = VNum (PInt (- 3))
   \<and> is_moving (fst (post (move_stepper platform_sleeps fadd_unrounded 3 (- 1) (PFloat (Fin (1 / 100))) (MotorController_init [(''stepper'', [14, 15, 16, 17])] ''stepper'')))) = False
   \<and> length (snd (post (move_stepper platform_sleeps fadd_unrounded 3 (- 1) (PFloat (Fin (1 / 100))) (MotorController_init [(''stepper'', [14, 15, 16, 17])] ''stepper'')))) = 4
   \<and> (0::int) \<le> 2
   \<and> time_sleep platform_sleeps 0 (PInt 10000000000) = Some (OverflowError (Text ''timestamp too large to convert to C _PyTime_t''))
   \<and> raised (move_stepper platform_sleeps fadd_unrounded 2 1 (PInt 10000000000) (MotorController_init [(''stepper'', [14, 15, 16, 17])] ''stepper'')) = None
   \<and> get_position (fst (post (move_stepper platform_sleeps fadd_unrounded 2 1 (PInt 10000000000) (MotorController_init [(''stepper'', [14, 15, 16, 17])] ''stepper'')))) = VNum (PInt 0)
   \<and> is_moving (fst (post (move_stepper platform_sleeps fadd_unrounded 2 1 (PInt 10000000000) (MotorController_init [(''stepper'', [14, 15, 16, 17])] ''stepper'')))) = False
   \<and> logged (move_stepper platform_sleeps fadd_unrounded 2 1 (PInt 10000000000) (MotorController_init [(''stepper'', [14, 15, 16, 17])] ''stepper'')) =
        [(INFO, [S ''Moving stepper motor '', I 2, S '' steps in direction '', I 1]),
         (ERROR, [S ''Error moving stepper motor: '', E (OverflowError (Text ''timestamp too large to convert to C _PyTime_t''))])]"
proof -
  let ?m = "(MotorController_init [(''stepper'', [14, 15, 16, 17])] ''stepper'')"
  let ?sp = "(PFloat (Fin (1 / 100)))"
  have h3: "(0::int) \<le> 3" and h2: "(0::int) \<le> 2" by simp_all
  have cp: "current_position ?m = VNum (PInt 0)" by (simp add: MotorController_init_def)
  have sl: "\<forall>k<nat 3. time_sleep platform_sleeps k ?sp = None"
    by (simp add: time_sleep_def sleep_argument_def platform_sleeps_def)
  note a = move_stepper_position [OF h3, where os = platform_sleeps and speed = ?sp
      and fadd = fadd_unrounded and m = ?m and direction = "- 1" and pos' = "VNum (PInt (- 3))"
      and p = 0 and j = 0 and x = "1 / 100"]
  have adv: "advance fadd_unrounded (nat 3) (current_position ?m) (- 1) = Inr (VNum (PInt (- 3)))"
    using a cp by simp
  have ra: "raised (move_stepper_try platform_sleeps fadd_unrounded 3 (- 1) (PFloat (Fin (1 / 100))) (MotorController_init [(''stepper'', [14, 15, 16, 17])] ''stepper'')) = None
      \<and> get_position (fst (post (move_stepper platform_sleeps fadd_unrounded 3 (- 1) (PFloat (Fin (1 / 100))) (MotorController_init [(''stepper'', [14, 15, 16, 17])] ''stepper'')))) = VNum (PInt (- 3))
      \<and> is_moving (fst (post (move_stepper platform_sleeps fadd_unrounded 3 (- 1) (PFloat (Fin (1 / 100))) (MotorController_init [(''stepper'', [14, 15, 16, 17])] ''stepper'')))) = False
      \<and> length (snd (post (move_stepper platform_sleeps fadd_unrounded 3 (- 1) (PFloat (Fin (1 / 100))) (MotorController_init [(''stepper'', [14, 15, 16, 17])] ''stepper'')))) = 4"
    using a sl adv by simp
  have ov: "time_sleep platform_sleeps 0 (PInt 10000000000) = Some (OverflowError (Text ''timestamp too large to convert to C _PyTime_t''))"
    by (simp add: time_sleep_def sleep_argument_def)
  have j: "(0::nat) < nat 2" by simp
  have adv0: "advance fadd_unrounded 0 (current_position ?m) 1 = Inr (VNum (PInt 0))"
    using cp by simp
  note b = move_stepper_position [OF h2, where os = platform_sleeps and speed = "PInt 10000000000"
      and fadd = fadd_unrounded and m = ?m and direction = 1 and j = 0
      and e = "OverflowError (Text ''timestamp too large to convert to C _PyTime_t'')" and pos_j = "VNum (PInt 0)"]
  have rb: "raised (move_stepper platform_sleeps fadd_unrounded 2 1 (PInt 10000000000) (MotorController_init [(''stepper'', [14, 15, 16, 17])] ''stepper'')) = None
      \<and> get_position (fst (post (move_stepper platform_sleeps fadd_unrounded 2 1 (PInt 10000000000) (MotorController_init [(''stepper'', [14, 15, 16, 17])] ''stepper'')))) = VNum (PInt 0)
      \<and> is_moving (fst (post (move_stepper platform_sleeps fadd_unrounded 2 1 (PInt 10000000000) (MotorController_init [(''stepper'', [14, 15, 16, 17])] ''stepper'')))) = False
      \<and> logged (move_stepper platform_sleeps fadd_unrounded 2 1 (PInt 10000000000) (MotorController_init [(''stepper'', [14, 15, 16, 17])] ''stepper'')) =
        [(INFO, [S ''Moving stepper motor '', I 2, S '' steps in direction '', I 1]),
         (ERROR, [S ''Error moving stepper motor: '', E (OverflowError (Text ''timestamp too large to convert to C _PyTime_t''))])]"
    using b j ov adv0 by simp
  from h3 h2 cp sl ra ov rb show ?thesis by simp
qed

text \<open>
  \<^bold>\<open>C2, as stated, fails.\<close> The angle 200 is outside the range, yet \<open>move_servo\<close>
  returns normally: no exception reaches the caller.
\<close>

theorem servo_out_of_range_not_reported:
  "\<not> (num_le (PInt 0) (PInt 200) \<and> num_le (PInt 200) (PInt 180))
   \<and> raised (move_servo (VNum (PInt 200)) 0
        (MotorController_init [(''stepper'', [14, 15, 16, 17])] ''stepper'')) = None"
  by (simp add: num_le_def move_servo_def)

text \<open>
  \<^bold>\<open>C2, amended.\<close> For a number \<open>0 \<le> angle \<le> 180\<close>, \<open>move_servo\<close> succeeds and
  \<open>get_position\<close> then returns the angle. For any other number (NaN and the infinities
  included) the body raises \<open>ValueError\<close> (angle out of range), the method's own handler
  catches it and logs it as an error, the call returns normally and the position is
  unchanged.
\<close>

theorem move_servo_range:
  "(num_le (PInt 0) a \<and> num_le a (PInt 180) \<longrightarrow>
      move_servo (VNum a) servo_id m =
        Outcome None (m\<lparr>current_position := VNum a\<rparr>)
          [(INFO, [S ''Moving servo '', I servo_id, S '' to angle '', V (VNum a), S '' degrees'']),
           (INFO, [S ''Servo '', I servo_id, S '' moved to '', V (VNum a), S '' degrees''])]
    \<and> get_position (post (move_servo (VNum a) servo_id m)) = VNum a)
 \<and> (\<not> (num_le (PInt 0) a \<and> num_le a (PInt 180)) \<longrightarrow>
      move_servo_try (VNum a) servo_id m
        = Outcome (Some (ValueError (Text ''Angle must be between 0 and 180 degrees''))) m []
    \<and> move_servo (VNum a) servo_id m =
        Outcome None m
          [(ERROR, [S ''Error moving servo motor: '',
                    E (ValueError (Text ''Angle must be between 0 and 180 degrees''))])]
    \<and> get_position (post (move_servo (VNum a) servo_id m)) = get_position m)"
  by (simp add: move_servo_def move_servo_try_def angle_in_range_num get_position_def
      try_except_def log_only_def)

theorem move_servo_range_witness:
  "num_le (PInt 0) (PFloat (Fin 90)) \<and> num_le (PFloat (Fin 90)) (PInt 180)
   \<and> get_position (post (move_servo (VNum (PFloat (Fin 90))) 0
        (MotorController_init [(''stepper'', [14, 15, 16, 17])] ''stepper''))) = VNum (PFloat (Fin 90))
   \<and> \<not> (num_le (PInt 0) (PInt 200) \<and> num_le (PInt 200) (PInt 180))
   \<and> get_position (post (move_servo (VNum (PInt 200)) 0
        (MotorController_init [(''stepper'', [14, 15, 16, 17])] ''stepper''))) = VNum (PInt 0)
   \<and> \<not> (num_le (PInt 0) (PFloat NaN) \<and> num_le (PFloat NaN) (PInt 180))
   \<and> raised (move_servo_try (VNum (PFloat NaN)) 0
        (MotorController_init [(''stepper'', [14, 15, 16, 17])] ''stepper''))
       = Some (ValueError (Text ''Angle must be between 0 and 180 degrees''))"
proof -
  let ?m = "MotorController_init [(''stepper'', [14, 15, 16, 17])] ''stepper''"
  have a: "num_le (PInt 0) (PFloat (Fin 90)) \<and> num_le (PFloat (Fin 90)) (PInt 180)"
    by (simp add: num_le_def)
  have b: "\<not> (num_le (PInt 0) (PInt 200) \<and> num_le (PInt 200) (PInt 180))"
    by (simp add: num_le_def)
  have c: "\<not> (num_le (PInt 0) (PFloat NaN) \<and> num_le (PFloat NaN) (PInt 180))"
    by (simp add: num_le_def)
  have g: "get_position ?m = VNum (PInt 0)"
    by (simp add: get_position_def MotorController_init_def)
  from a b c g
    move_servo_range [of "PFloat (Fin 90)" 0 ?m]
    move_servo_range [of "PInt 200" 0 ?m]
    move_servo_range [of "PFloat NaN" 0 ?m]
  show ?thesis by (simp add: get_position_def)
qed

section \<open>Properties of the pest response\<close>

lemma fold_add_action:
  "fold add_action acts s = s\<lparr>action_queue := action_queue s @ acts\<rparr>"
  by (induction acts arbitrary: s) (simp_all add: add_action_def)

lemma select_actions_num:
  "dict_index t ''high_risk'' = Inr h \<Longrightarrow> dict_index t ''medium_risk'' = Inr m \<Longrightarrow>
   select_actions t (VNum c) = Inr (actions_for (classify h m c))"
  by (simp add: select_actions_def classify_def)

lemma trigger_selected:
  "select_actions (pest_thresholds (config s)) confidence = Inr acts \<Longrightarrow>
   trigger_pest_response pest_type confidence location s =
     Outcome None (s\<lparr>action_queue := action_queue s @ acts\<rparr>)
       [(INFO, [S ''Triggered pest response for '', S pest_type, S '' (confidence: '',
                V confidence, S '')''])]"
  by (simp add: trigger_pest_response_def trigger_pest_response_try_def try_except_def
      fold_add_action)

lemma trigger_raised:
  "select_actions (pest_thresholds (config s)) confidence = Inl e \<Longrightarrow>
   trigger_pest_response pest_type confidence location s =
     Outcome None s [(ERROR, [S ''Error triggering pest response: '', E e])]"
  by (simp add: trigger_pest_response_def trigger_pest_response_try_def try_except_def
      log_only_def)

lemma fle_trans: "fle a b \<Longrightarrow> fle b c \<Longrightarrow> fle a c"
  by (cases a; cases b; cases c) simp_all

lemma fle_total: "a \<noteq> NaN \<Longrightarrow> b \<noteq> NaN \<Longrightarrow> fle a b \<or> fle b a"
  by (cases a; cases b) auto

lemma fle_nan_left: "fle a b \<Longrightarrow> a \<noteq> NaN \<and> b \<noteq> NaN"
  by (cases a; cases b) simp_all

lemma num_le_trans: "num_le a b \<Longrightarrow> num_le b c \<Longrightarrow> num_le a c"
  unfolding num_le_def by (rule fle_trans)

lemma not_le_iff_lt:
  assumes "num_le z c" and "\<not> is_nan h"
  shows "(\<not> num_le h c) = num_lt c h"
proof -
  from assms(1) have "num_val c \<noteq> NaN" by (auto simp: num_le_def dest: fle_nan_left)
  with assms(2) have "fle (num_val c) (num_val h) \<or> fle (num_val h) (num_val c)"
    by (simp add: fle_total is_nan_def)
  then show ?thesis by (auto simp: num_lt_def num_le_def)
qed

lemma classify_mono:
  "num_le c1 c2 \<Longrightarrow> tier_rank (classify h m c1) \<le> tier_rank (classify h m c2)"
  by (auto simp: classify_def dest: num_le_trans)

lemma select_actions_cong:
  assumes "map_of t1 ''high_risk'' = map_of t2 ''high_risk''"
    and "map_of t1 ''medium_risk'' = map_of t2 ''medium_risk''"
  shows "select_actions t1 confidence = select_actions t2 confidence"
proof -
  have h: "dict_index t1 ''high_risk'' = dict_index t2 ''high_risk''"
    and m: "dict_index t1 ''medium_risk'' = dict_index t2 ''medium_risk''"
    using assms by (simp_all add: dict_index_def)
  show ?thesis unfolding select_actions_def h m by (rule refl)
qed

lemma initialize_controllers_fields:
  "raised (initialize_controllers cfg) = None"
  "config (post (initialize_controllers cfg)) = cfg"
  "action_queue (post (initialize_controllers cfg)) = []"
  "is_running (post (initialize_controllers cfg)) = False"
  "relay_controller (post (initialize_controllers cfg)) = post (RelayController_init (cfg_relay_pins cfg) None)"
  "motor_controller (post (initialize_controllers cfg)) = MotorController_init (cfg_motor_pins cfg) ''stepper''"
  by (simp_all add: initialize_controllers_def Let_def then_do_def say_def try_except_def
      RelayController_init_def setup_gpio_def)

lemma default_thresholds:
  "dict_index (pest_thresholds default_config) ''high_risk'' = Inr (PFloat (Fin (8 / 10)))"
  "dict_index (pest_thresholds default_config) ''medium_risk'' = Inr (PFloat (Fin (5 / 10)))"
  by (simp_all add: default_config_def dict_index_def)

text \<open>
  \<^bold>\<open>C1.\<close> With both thresholds configured (the high one not NaN) and a confidence in
  \<open>[0, 1]\<close>, \<open>trigger_pest_response\<close> appends to the queue exactly: spray for 10 then
  trap for 60 when \<open>confidence \<ge> high_risk\<close>; spray for 5 then trap for 30 when
  \<open>medium_risk \<le> confidence < high_risk\<close>; trap for 15 otherwise. The queue it leaves is
  the same for every pest type and location.
\<close>

theorem trigger_enqueues_bundle:
  assumes "dict_index (pest_thresholds (config s)) ''high_risk'' = Inr high_risk"
    and "dict_index (pest_thresholds (config s)) ''medium_risk'' = Inr medium_risk"
    and "\<not> is_nan high_risk"
    and "num_le (PInt 0) c" and "num_le c (PInt 1)"
  shows "action_queue (post (trigger_pest_response pest_type (VNum c) location s)) =
           action_queue s @
             (if num_le high_risk c
              then [[(''type'', VStr ''spray_pesticide''), (''duration'', VNum (PInt 10))],
                    [(''type'', VStr ''activate_trap''), (''duration'', VNum (PInt 60))]]
              else if num_le medium_risk c \<and> num_lt c high_risk
              then [[(''type'', VStr ''spray_pesticide''), (''duration'', VNum (PInt 5))],
                    [(''type'', VStr ''activate_trap''), (''duration'', VNum (PInt 30))]]
              else [[(''type'', VStr ''activate_trap''), (''duration'', VNum (PInt 15))]])
       \<and> action_queue (post (trigger_pest_response pest_type (VNum c) location s)) =
           action_queue (post (trigger_pest_response pest_type' (VNum c) location' s))"
proof -
  note sel = select_actions_num [OF assms(1,2), of c]
  have lt: "(\<not> num_le high_risk c) = num_lt c high_risk"
    by (rule not_le_iff_lt [OF assms(4,3)])
  have q: "\<And>pt loc. action_queue (post (trigger_pest_response pt (VNum c) loc s)) =
           action_queue s @ actions_for (classify high_risk medium_risk c)"
    by (simp add: trigger_selected [OF sel])
  have "actions_for (classify high_risk medium_risk c) =
          (if num_le high_risk c
              then [[(''type'', VStr ''spray_pesticide''), (''duration'', VNum (PInt 10))],
                    [(''type'', VStr ''activate_trap''), (''duration'', VNum (PInt 60))]]
              else if num_le medium_risk c \<and> num_lt c high_risk
              then [[(''type'', VStr ''spray_pesticide''), (''duration'', VNum (PInt 5))],
                    [(''type'', VStr ''activate_trap''), (''duration'', VNum (PInt 30))]]
              else [[(''type'', VStr ''activate_trap''), (''duration'', VNum (PInt 15))]])"
    using lt by (auto simp: classify_def)
  with q show ?thesis by simp
qed

theorem trigger_enqueues_bundle_witness:
  "dict_index (pest_thresholds (config (post (initialize_controllers default_config)))) ''high_risk''
     = Inr (PFloat (Fin (8 / 10)))
   \<and> dict_index (pest_thresholds (config (post (initialize_controllers default_config)))) ''medium_risk''
     = Inr (PFloat (Fin (5 / 10)))
   \<and> \<not> is_nan (PFloat (Fin (8 / 10)))
   \<and> num_le (PInt 0) (PFloat (Fin (8 / 10))) \<and> num_le (PFloat (Fin (8 / 10))) (PInt 1)
   \<and> action_queue (post (trigger_pest_response ''aphid'' (VNum (PFloat (Fin (8 / 10))))
        (PInt 100, PInt 200) (post (initialize_controllers default_config))))
      = [[(''type'', VStr ''spray_pesticide''), (''duration'', VNum (PInt 10))],
         [(''type'', VStr ''activate_trap''), (''duration'', VNum (PInt 60))]]"
proof -
  let ?s = "post (initialize_controllers default_config)"
  have h: "dict_index (pest_thresholds (config ?s)) ''high_risk'' = Inr (PFloat (Fin (8 / 10)))"
    by (simp add: initialize_controllers_fields default_thresholds)
  have m: "dict_index (pest_thresholds (config ?s)) ''medium_risk'' = Inr (PFloat (Fin (5 / 10)))"
    by (simp add: initialize_controllers_fields default_thresholds)
  have n: "\<not> is_nan (PFloat (Fin (8 / 10)))" by (simp add: is_nan_def)
  have a: "num_le (PInt 0) (PFloat (Fin (8 / 10)))" by (simp add: num_le_def)
  have b: "num_le (PFloat (Fin (8 / 10))) (PInt 1)" by (simp add: num_le_def)
  have q: "action_queue ?s = []" by (simp add: initialize_controllers_fields)
  have hh: "num_le (PFloat (Fin (8 / 10))) (PFloat (Fin (8 / 10)))" by (simp add: num_le_def)
  from trigger_enqueues_bundle [OF h m n a b, of "''aphid''" "(PInt 100, PInt 200)"] h m n a b q hh
  show ?thesis by simp
qed

text \<open>
  \<^bold>\<open>C6.\<close> The bundle \<open>trigger_pest_response\<close> appends is the one of the tier
  \<open>classify\<close> gives, and for \<open>c1 \<le> c2\<close> the tier of \<open>c1\<close> is at most the tier of \<open>c2\<close>
  in the order low, medium, high. This holds for any two configured thresholds, so in
  particular for \<open>high_risk \<ge> medium_risk \<ge> low_risk\<close>.
\<close>

theorem classify_monotone:
  assumes "dict_index (pest_thresholds (config s)) ''high_risk'' = Inr high_risk"
    and "dict_index (pest_thresholds (config s)) ''medium_risk'' = Inr medium_risk"
    and "num_le c1 c2"
  shows "action_queue (post (trigger_pest_response pest_type (VNum c1) location s)) =
           action_queue s @ actions_for (classify high_risk medium_risk c1)
       \<and> action_queue (post (trigger_pest_response pest_type (VNum c2) location s)) =
           action_queue s @ actions_for (classify high_risk medium_risk c2)
       \<and> tier_rank (classify high_risk medium_risk c1) \<le> tier_rank (classify high_risk medium_risk c2)"
  using assms
  by (simp add: trigger_selected [OF select_actions_num] classify_mono)

theorem classify_monotone_witness:
  "dict_index (pest_thresholds (config (post (initialize_controllers default_config)))) ''high_risk''
     = Inr (PFloat (Fin (8 / 10)))
   \<and> dict_index (pest_thresholds (config (post (initialize_controllers default_config)))) ''medium_risk''
     = Inr (PFloat (Fin (5 / 10)))
   \<and> num_le (PFloat (Fin (4 / 10))) (PFloat (Fin (85 / 100)))
   \<and> classify (PFloat (Fin (8 / 10))) (PFloat (Fin (5 / 10))) (PFloat (Fin (4 / 10))) = Low
   \<and> classify (PFloat (Fin (8 / 10))) (PFloat (Fin (5 / 10))) (PFloat (Fin (85 / 100))) = High
   \<and> tier_rank (classify (PFloat (Fin (8 / 10))) (PFloat (Fin (5 / 10))) (PFloat (Fin (4 / 10))))
       \<le> tier_rank (classify (PFloat (Fin (8 / 10))) (PFloat (Fin (5 / 10))) (PFloat (Fin (85 / 100))))"
proof -
  let ?s = "post (initialize_controllers default_config)"
  have h: "dict_index (pest_thresholds (config ?s)) ''high_risk'' = Inr (PFloat (Fin (8 / 10)))"
    by (simp add: initialize_controllers_fields default_thresholds)
  have m: "dict_index (pest_thresholds (config ?s)) ''medium_risk'' = Inr (PFloat (Fin (5 / 10)))"
    by (simp add: initialize_controllers_fields default_thresholds)
  have c: "num_le (PFloat (Fin (4 / 10))) (PFloat (Fin (85 / 100)))" by (simp add: num_le_def)
  have lo: "classify (PFloat (Fin (8 / 10))) (PFloat (Fin (5 / 10))) (PFloat (Fin (4 / 10))) = Low"
    by (simp add: classify_def num_le_def)
  have hi: "classify (PFloat (Fin (8 / 10))) (PFloat (Fin (5 / 10))) (PFloat (Fin (85 / 100))) = High"
    by (simp add: classify_def num_le_def)
  from classify_monotone [OF h m c, of "''aphid''" "(PInt 100, PInt 200)"] h m c lo hi
  show ?thesis by simp
qed

text \<open>
  \<^bold>\<open>C9.\<close> Two systems whose thresholds agree on every key other than \<open>low_risk\<close>
  (and whose queues are equal) have equal queues and equal log records after
  \<open>trigger_pest_response\<close> on the same arguments: \<open>low_risk\<close> is never read.
\<close>

theorem low_risk_not_read:
  assumes "\<forall>k. k \<noteq> ''low_risk'' \<longrightarrow>
             map_of (pest_thresholds (config s1)) k = map_of (pest_thresholds (config s2)) k"
    and "action_queue s1 = action_queue s2"
  shows "action_queue (post (trigger_pest_response pest_type confidence location s1)) =
         action_queue (post (trigger_pest_response pest_type confidence location s2))
       \<and> logged (trigger_pest_response pest_type confidence location s1) =
         logged (trigger_pest_response pest_type confidence location s2)"
proof -
  have "select_actions (pest_thresholds (config s1)) confidence =
        select_actions (pest_thresholds (config s2)) confidence"
    using assms(1) by (intro select_actions_cong) simp_all
  then show ?thesis
    using assms(2)
    by (cases "select_actions (pest_thresholds (config s2)) confidence")
       (simp_all add: trigger_selected trigger_raised)
qed


theorem low_risk_not_read_witness:
  "map_of (pest_thresholds (config (post (initialize_controllers default_config)))) ''low_risk''
     = Some (PFloat (Fin (3 / 10)))
   \<and> map_of (pest_thresholds (config (post (initialize_controllers
         (default_config\<lparr>pest_thresholds :=
            [(''high_risk'', PFloat (Fin (8 / 10))), (''medium_risk'', PFloat (Fin (5 / 10))),
             (''low_risk'', PFloat (Fin (9 / 10)))]\<rparr>))))) ''low_risk''
     = Some (PFloat (Fin (9 / 10)))
   \<and> action_queue (post (trigger_pest_response ''aphid'' (VNum (PFloat (Fin (4 / 10)))) (PInt 1, PInt 2)
        (post (initialize_controllers default_config))))
     = action_queue (post (trigger_pest_response ''aphid'' (VNum (PFloat (Fin (4 / 10)))) (PInt 1, PInt 2)
        (post (initialize_controllers
           (default_config\<lparr>pest_thresholds :=
              [(''high_risk'', PFloat (Fin (8 / 10))), (''medium_risk'', PFloat (Fin (5 / 10))),
               (''low_risk'', PFloat (Fin (9 / 10)))]\<rparr>)))))"
proof -
  let ?s1 = "post (initialize_controllers default_config)"
  let ?s2 = "post (initialize_controllers
         (default_config\<lparr>pest_thresholds :=
            [(''high_risk'', PFloat (Fin (8 / 10))), (''medium_risk'', PFloat (Fin (5 / 10))),
             (''low_risk'', PFloat (Fin (9 / 10)))]\<rparr>))"
  have a: "\<forall>k. k \<noteq> ''low_risk'' \<longrightarrow>
      map_of (pest_thresholds (config ?s1)) k = map_of (pest_thresholds (config ?s2)) k"
    by (simp add: initialize_controllers_fields default_config_def)
  have q: "action_queue ?s1 = action_queue ?s2"
    by (simp add: initialize_controllers_fields)
  have l1: "map_of (pest_thresholds (config ?s1)) ''low_risk'' = Some (PFloat (Fin (3 / 10)))"
    by (simp add: initialize_controllers_fields default_config_def)
  have l2: "map_of (pest_thresholds (config ?s2)) ''low_risk'' = Some (PFloat (Fin (9 / 10)))"
    by (simp add: initialize_controllers_fields)
  from low_risk_not_read [OF a q, of "''aphid''" "VNum (PFloat (Fin (4 / 10)))" "(PInt 1, PInt 2)"] l1 l2
  show ?thesis by blast
qed

section \<open>Properties of the construction\<close>

lemma os_unbound: "global_name ''os'' = Some (NameError (Text ''os''))"
  by (simp add: global_name_def module_globals_def)

text \<open>
  \<^bold>\<open>C8, as stated, fails.\<close> The empty string is a \<open>config_file\<close> other than
  \<open>None\<close>, and the construction succeeds with it: the guard
  \<open>config_file and os.path.exists(config_file)\<close> stops at the empty string before \<open>os\<close>
  is evaluated.
\<close>

theorem empty_config_file_succeeds:
  "fst (PestManagementSystem_init Map.empty (Some '''')) =
     Inr (post (initialize_controllers default_config))"
  by (simp add: PestManagementSystem_init_def load_config_def initialize_controllers_fields Let_def)

text \<open>
  \<^bold>\<open>C8, amended.\<close> For every non-empty \<open>config_file\<close> and every file system, the
  construction raises \<open>NameError\<close> for \<open>os\<close> with no file opened and nothing logged;
  with \<open>None\<close> or the empty string it succeeds with the default configuration.
\<close>

theorem init_config_file:
  "(path \<noteq> [] \<longrightarrow>
      PestManagementSystem_init fs (Some path) = (Inl (NameError (Text ''os'')), [], []))
   \<and> fst (PestManagementSystem_init fs None) = Inr (post (initialize_controllers default_config))
   \<and> fst (PestManagementSystem_init fs (Some [])) = Inr (post (initialize_controllers default_config))"
  by (simp add: PestManagementSystem_init_def load_config_def os_unbound
      initialize_controllers_fields Let_def)

theorem init_config_file_witness:
  "''config.json'' \<noteq> []
   \<and> PestManagementSystem_init (Map.empty(''config.json'' \<mapsto> Inl (ValueError (Text ''bad json''))))
        (Some ''config.json'') = (Inl (NameError (Text ''os'')), [], [])"
  using init_config_file [of "''config.json''"
      "Map.empty(''config.json'' \<mapsto> Inl (ValueError (Text ''bad json'')))"]
  by simp

section \<open>Properties of the worker\<close>




lemma say_fields [simp]:
  "raised (say l s) = None" "post (say l s) = s" "logged (say l s) = l"
  by (simp_all add: say_def)

lemma on_relay_fields [simp]:
  "raised (on_relay f s) = raised (f (relay_controller s))"
  "logged (on_relay f s) = logged (f (relay_controller s))"
  "post (on_relay f s) = s\<lparr>relay_controller := post (f (relay_controller s))\<rparr>"
  by (simp_all add: on_relay_def Let_def)

lemma on_motor_fields [simp]:
  "raised (on_motor f s) = raised (f (motor_controller s))"
  "logged (on_motor f s) = logged (f (motor_controller s))"
  "post (on_motor f s) = s\<lparr>motor_controller := post (f (motor_controller s))\<rparr>"
  by (simp_all add: on_motor_def Let_def)





lemma worker_iteration_empty:
  "action_queue s = [] \<Longrightarrow> worker_iteration s = Outcome None s []"
  by (simp add: worker_iteration_def try_except_def)

















end
